theory Spec2Isabelle
  imports Main "HOL-Library.Word"
begin

section \<open>The Yahoo provider of goth (providers/yahoo/yahoo.go)\<close>

text \<open>
  The provider is a thin binding over three libraries: \<open>golang.org/x/oauth2\<close>,
  \<open>net/http\<close> and \<open>encoding/json\<close>. The functions of yahoo.go are embedded as they
  are written; each library call is an argument of the embedded function, so that a
  theorem about the provider holds for every behaviour of the library.
  Go strings are byte sequences, as \<open>string\<close> is here.
\<close>

subsection \<open>Constants\<close>

definition authURL :: string where
  "authURL = ''https://api.login.yahoo.com/oauth2/request_auth''"

definition tokenURL :: string where
  "tokenURL = ''https://api.login.yahoo.com/oauth2/get_token''"

definition endpointProfile :: string where
  "endpointProfile = ''https://social.yahooapis.com/v1/user/GUID/profile?format=json''"

subsection \<open>Data\<close>

text \<open>
  \<open>time.Time\<close> of the Go library: the wall and monotonic readings and the location
  pointer. Its zero value has every component zero.
\<close>

record Time =
  wall :: "64 word"
  ext :: "64 word"
  loc :: "nat option"

definition zeroTime :: Time where
  "zeroTime = \<lparr>wall = 0, ext = 0, loc = None\<rparr>"

text \<open>\<open>oauth2.Endpoint\<close> and \<open>oauth2.Config\<close>, with the fields yahoo.go sets.\<close>

record Endpoint =
  Endpoint_AuthURL :: string
  Endpoint_TokenURL :: string

record Config =
  ClientID :: string
  ClientSecret :: string
  RedirectURL :: string
  Endpoint :: Endpoint
  Scopes :: "string list"

text \<open>\<open>oauth2.Token\<close>.\<close>

record Token =
  Token_AccessToken :: string
  TokenType :: string
  Token_RefreshToken :: string
  Expiry :: Time

text \<open>
  The provider. \<open>config\<close> is a pointer in the source: \<open>None\<close> is the nil pointer of
  a Provider that was not built by \<open>New\<close>.
\<close>

record Provider =
  ClientKey :: string
  Secret :: string
  CallbackURL :: string
  config :: "Config option"

text \<open>
  Modelled from the spec: the Session type (session.go is not among the source files).
  Section 3 of the specification gives its fields: the pending authorization URL, the
  access token, the refresh token and the expiry of the access token; yahoo.go reads and
  writes them under the names below.
\<close>

record Session =
  AuthURL :: string
  AccessToken :: string
  RefreshToken :: string
  ExpiresAt :: Time

definition zeroSession :: Session where
  "zeroSession = \<lparr>AuthURL = [], AccessToken = [], RefreshToken = [], ExpiresAt = zeroTime\<rparr>"

text \<open>
  Modelled from the spec: the normalized user record \<open>goth.User\<close> (user.go is not among
  the source files), with the fields section 3 of the specification lists, which are the
  fields yahoo.go assigns.
\<close>

record User =
  User_Provider :: string
  Email :: string
  Name :: string
  NickName :: string
  UserID :: string
  AvatarURL :: string
  Location :: string
  User_AccessToken :: string
  User_RefreshToken :: string
  User_ExpiresAt :: Time

text \<open>
  A value of the interface \<open>goth.Session\<close>: a pointer to this provider's Session (which
  may be nil), a value of another concrete type (named by its type), or the nil
  interface.
\<close>

datatype goth_Session =
    YahooSession "Session option"
  | ForeignSession string
  | NilSession

text \<open>
  Errors are values of the interface \<open>error\<close>; the constructor records which library
  produced the error, which is the error kind of section 7 of the specification.
\<close>

datatype json_error =
    EOF
  | ErrUnexpectedEOF
  | SyntaxError nat
  | UnmarshalTypeError string string
  | TimeError string

datatype error =
    TransportFailed string
  | DecodeFailed json_error
  | RefreshFailed string

text \<open>A call either panics or returns.\<close>

datatype panic = InterfaceConversion | NilDereference

datatype 'a outcome = Panic panic | Returned 'a

subsection \<open>HTTP values\<close>

record Request =
  Method :: string
  URL :: string
  Header :: "(string \<times> string) list"

record Response =
  StatusCode :: nat
  Body :: string

text \<open>\<open>Header.Set\<close>: the key gets the one value, whatever it had before.\<close>

definition Header_Set :: "string \<Rightarrow> string \<Rightarrow> (string \<times> string) list \<Rightarrow> (string \<times> string) list" where
  "Header_Set k v h = filter (\<lambda>kv. fst kv \<noteq> k) h @ [(k, v)]"

text \<open>The value into which \<open>userFromReader\<close> decodes the response.\<close>

record Image =
  ImageURL :: string

record Profile =
  Profile_NickName :: string
  Profile_Location :: string
  Profile_ID :: string
  Profile_Image :: Image

record ProfileDoc =
  Profile :: Profile

definition zeroProfileDoc :: ProfileDoc where
  "zeroProfileDoc = \<lparr>Profile = \<lparr>Profile_NickName = [], Profile_Location = [], Profile_ID = [],
     Profile_Image = \<lparr>ImageURL = []\<rparr>\<rparr>\<rparr>"

subsection \<open>The provider's functions\<close>

text \<open>
  \<open>newConfig\<close>: the scopes are appended one by one to an empty list when there are any.
\<close>

definition newConfig :: "string \<Rightarrow> string \<Rightarrow> string \<Rightarrow> string list \<Rightarrow> Config" where
  "newConfig clientKey secret callbackURL scopes =
     (let c = \<lparr>ClientID = clientKey, ClientSecret = secret, RedirectURL = callbackURL,
                Endpoint = \<lparr>Endpoint_AuthURL = authURL, Endpoint_TokenURL = tokenURL\<rparr>,
                Scopes = []\<rparr>
      in if length scopes > 0
         then foldl (\<lambda>c scope. c\<lparr>Scopes := Scopes c @ [scope]\<rparr>) c scopes
         else c)"

definition New :: "string \<Rightarrow> string \<Rightarrow> string \<Rightarrow> string list \<Rightarrow> Provider" where
  "New clientKey secret callbackURL scopes =
     (let p = \<lparr>ClientKey = clientKey, Secret = secret, CallbackURL = callbackURL, config = None\<rparr>
      in p\<lparr>config := Some (newConfig (ClientKey p) (Secret p) (CallbackURL p) scopes)\<rparr>)"

definition Provider_Name :: "Provider \<Rightarrow> string" where
  "Provider_Name p = ''yahoo''"

definition RefreshTokenAvailable :: "Provider \<Rightarrow> bool" where
  "RefreshTokenAvailable p = True"

text \<open>
  \<open>BeginAuth\<close>. The argument \<open>authCodeURL\<close> is \<open>Config.AuthCodeURL\<close> of the oauth2
  library, which dereferences its receiver.
\<close>

definition BeginAuth ::
  "(Config \<Rightarrow> string \<Rightarrow> string) \<Rightarrow> Provider \<Rightarrow> string \<Rightarrow> (Session \<times> error option) outcome" where
  "BeginAuth authCodeURL p state =
     (case config p of
        None \<Rightarrow> Panic NilDereference
      | Some c \<Rightarrow>
          Returned (\<lparr>AuthURL = authCodeURL c state, AccessToken = [], RefreshToken = [],
                     ExpiresAt = zeroTime\<rparr>, None))"

text \<open>
  \<open>userFromReader\<close>. The argument \<open>decode\<close> is \<open>json.NewDecoder(r).Decode(&u)\<close>: from
  the bytes of the reader and the value \<open>u\<close> points to, the value afterwards and the
  error.
\<close>

definition userFromReader ::
  "(string \<Rightarrow> ProfileDoc \<Rightarrow> ProfileDoc \<times> json_error option) \<Rightarrow> string \<Rightarrow> User
     \<Rightarrow> User \<times> error option" where
  "userFromReader decode r user =
     (case decode r zeroProfileDoc of
        (u, Some err) \<Rightarrow> (user, Some (DecodeFailed err))
      | (u, None) \<Rightarrow>
          (user\<lparr>Email := [],
                Name := Profile_NickName (Profile u),
                NickName := Profile_NickName (Profile u),
                UserID := Profile_ID (Profile u),
                Location := Profile_Location (Profile u),
                AvatarURL := ImageURL (Profile_Image (Profile u))\<rparr>, None))"

text \<open>
  The user with which \<open>FetchUser\<close> starts: the name of the provider and the token
  fields of the Session; every other field has its zero value.
\<close>

definition initialUser :: "Provider \<Rightarrow> Session \<Rightarrow> User" where
  "initialUser p s =
     \<lparr>User_Provider = Provider_Name p, Email = [], Name = [], NickName = [],
      UserID = [], AvatarURL = [], Location = [],
      User_AccessToken = AccessToken s,
      User_RefreshToken = RefreshToken s,
      User_ExpiresAt = ExpiresAt s\<rparr>"

text \<open>
  \<open>FetchUser\<close>. \<open>newRequest\<close> is \<open>http.NewRequest\<close> (with the nil body of the source),
  \<open>do\<close> is \<open>http.DefaultClient.Do\<close>; each returns its value, if any, and its error.
  The status of the response is not looked at.
\<close>

definition FetchUser ::
  "(string \<Rightarrow> string \<Rightarrow> Request option \<times> string option)
     \<Rightarrow> (Request \<Rightarrow> Response option \<times> string option)
     \<Rightarrow> (string \<Rightarrow> ProfileDoc \<Rightarrow> ProfileDoc \<times> json_error option)
     \<Rightarrow> Provider \<Rightarrow> goth_Session \<Rightarrow> (User \<times> error option) outcome" where
  "FetchUser newRequest do decode p session =
     (case session of
        ForeignSession t \<Rightarrow> Panic InterfaceConversion
      | NilSession \<Rightarrow> Panic InterfaceConversion
      | YahooSession None \<Rightarrow> Panic NilDereference
      | YahooSession (Some s) \<Rightarrow>
          (let user = initialUser p s
           in case newRequest ''GET'' endpointProfile of
                (_, Some err) \<Rightarrow> Returned (user, Some (TransportFailed err))
              | (None, None) \<Rightarrow> Panic NilDereference
              | (Some req0, None) \<Rightarrow>
                  (let req = req0\<lparr>Header := Header_Set ''Authorization''
                                     (''Bearer '' @ AccessToken s) (Header req0)\<rparr>
                   in case do req of
                        (_, Some err) \<Rightarrow> Returned (user, Some (TransportFailed err))
                      | (None, None) \<Rightarrow> Panic NilDereference
                      | (Some resp, None) \<Rightarrow> Returned (userFromReader decode (Body resp) user))))"

text \<open>
  \<open>UnmarshalSession\<close>: the decoder works on a fresh zero Session, and the Session is
  returned together with the decoder's error.
\<close>

definition UnmarshalSession ::
  "(string \<Rightarrow> Session \<Rightarrow> Session \<times> json_error option) \<Rightarrow> Provider \<Rightarrow> string
     \<Rightarrow> Session \<times> error option" where
  "UnmarshalSession decode p data =
     (case decode data zeroSession of (s, err) \<Rightarrow> (s, map_option DecodeFailed err))"

text \<open>
  \<open>RefreshToken\<close>. \<open>tokenSourceToken\<close> is \<open>Config.TokenSource(ctx, token).Token()\<close> of
  the oauth2 library: from the configuration pointer and the token, the new token, if
  any, and the error.
\<close>

definition RefreshToken_op ::
  "(Config option \<Rightarrow> Token \<Rightarrow> Token option \<times> string option) \<Rightarrow> Provider \<Rightarrow> string
     \<Rightarrow> Token option \<times> error option" where
  "RefreshToken_op tokenSourceToken p refreshToken =
     (let token = \<lparr>Token_AccessToken = [], TokenType = [], Token_RefreshToken = refreshToken,
                    Expiry = zeroTime\<rparr>
      in case tokenSourceToken (config p) token of
           (newToken, Some err) \<Rightarrow> (None, Some (RefreshFailed err))
         | (newToken, None) \<Rightarrow> (newToken, None))"


section \<open>The JSON decoder of the Go library\<close>

text \<open>
  \<open>encoding/json\<close> is not part of the repository. What follows is the part of it that
  \<open>Decoder.Decode\<close> runs on the two values yahoo.go decodes into: the scanner, which
  finds the first value of the input or its syntax error, and the decoder, which walks
  that value and stores strings into fields.
\<close>

subsection \<open>The scanner of encoding/json (scanner.go)\<close>

datatype parse = parseObjectKey | parseObjectValue | parseArrayValue

datatype step =
    StBeginValueOrEmpty | StBeginValue | StBeginStringOrEmpty | StBeginString
  | StEndValue | StEndTop | StInString | StInStringEsc
  | StInStringEscU | StInStringEscU1 | StInStringEscU12 | StInStringEscU123
  | StNeg | St1 | St0 | StDot | StDot0 | StE | StESign | StE0
  | StT | StTr | StTru | StF | StFa | StFal | StFals | StN | StNu | StNul
  | StError

datatype opcode =
    scanContinue | scanBeginLiteral | scanBeginObject | scanObjectKey | scanObjectValue
  | scanEndObject | scanBeginArray | scanArrayValue | scanEndArray | scanSkipSpace
  | scanEnd | scanError

text \<open>The scanner: the step function in force and the stack of open containers (top first).\<close>

type_synonym scanner = "step \<times> parse list"

definition maxNestingDepth :: nat where
  "maxNestingDepth = 10000"

definition isSpace :: "char \<Rightarrow> bool" where
  "isSpace c = (c = CHR '' '' \<or> c = CHR 0x09 \<or> c = CHR 0x0D \<or> c = CHR 0x0A)"

definition isDigit :: "char \<Rightarrow> bool" where
  "isDigit c = (c \<in> set ''0123456789'')"

definition isDigit19 :: "char \<Rightarrow> bool" where
  "isDigit19 c = (c \<in> set ''123456789'')"

definition isHex :: "char \<Rightarrow> bool" where
  "isHex c = (c \<in> set ''0123456789abcdefABCDEF'')"

definition scan_error :: "parse list \<Rightarrow> opcode \<times> scanner" where
  "scan_error ps = (scanError, (StError, ps))"

definition pushParseState :: "step \<Rightarrow> parse list \<Rightarrow> parse \<Rightarrow> opcode \<Rightarrow> opcode \<times> scanner" where
  "pushParseState st ps newParseState successState =
     (if length (newParseState # ps) \<le> maxNestingDepth
      then (successState, (st, newParseState # ps))
      else scan_error (newParseState # ps))"

definition stateEndTop :: "parse list \<Rightarrow> char \<Rightarrow> opcode \<times> scanner" where
  "stateEndTop ps c = (if \<not> isSpace c then (scanEnd, (StError, ps)) else (scanEnd, (StEndTop, ps)))"

text \<open>\<open>popParseState\<close>: the step function after a container is closed.\<close>

definition popParseState :: "parse list \<Rightarrow> scanner" where
  "popParseState ps = (let ps' = tl ps in if ps' = [] then (StEndTop, ps') else (StEndValue, ps'))"

definition stateEndValue :: "parse list \<Rightarrow> char \<Rightarrow> opcode \<times> scanner" where
  "stateEndValue ps c =
     (case ps of
        [] \<Rightarrow> stateEndTop ps c
      | p # rest \<Rightarrow>
          if isSpace c then (scanSkipSpace, (StEndValue, ps))
          else (case p of
                  parseObjectKey \<Rightarrow>
                    if c = CHR '':'' then (scanObjectKey, (StBeginValue, parseObjectValue # rest))
                    else scan_error ps
                | parseObjectValue \<Rightarrow>
                    if c = CHR '','' then (scanObjectValue, (StBeginString, parseObjectKey # rest))
                    else if c = CHR ''}'' then (scanEndObject, popParseState ps)
                    else scan_error ps
                | parseArrayValue \<Rightarrow>
                    if c = CHR '','' then (scanArrayValue, (StBeginValue, ps))
                    else if c = CHR '']'' then (scanEndArray, popParseState ps)
                    else scan_error ps))"

definition stateBeginValue :: "parse list \<Rightarrow> char \<Rightarrow> opcode \<times> scanner" where
  "stateBeginValue ps c =
     (if isSpace c then (scanSkipSpace, (StBeginValue, ps))
      else if c = CHR ''{'' then pushParseState StBeginStringOrEmpty ps parseObjectKey scanBeginObject
      else if c = CHR ''['' then pushParseState StBeginValueOrEmpty ps parseArrayValue scanBeginArray
      else if c = CHR 0x22 then (scanBeginLiteral, (StInString, ps))
      else if c = CHR ''-'' then (scanBeginLiteral, (StNeg, ps))
      else if c = CHR ''0'' then (scanBeginLiteral, (St0, ps))
      else if c = CHR ''t'' then (scanBeginLiteral, (StT, ps))
      else if c = CHR ''f'' then (scanBeginLiteral, (StF, ps))
      else if c = CHR ''n'' then (scanBeginLiteral, (StN, ps))
      else if isDigit19 c then (scanBeginLiteral, (St1, ps))
      else scan_error ps)"

definition stateBeginValueOrEmpty :: "parse list \<Rightarrow> char \<Rightarrow> opcode \<times> scanner" where
  "stateBeginValueOrEmpty ps c =
     (if isSpace c then (scanSkipSpace, (StBeginValueOrEmpty, ps))
      else if c = CHR '']'' then stateEndValue ps c
      else stateBeginValue ps c)"

definition stateBeginString :: "parse list \<Rightarrow> char \<Rightarrow> opcode \<times> scanner" where
  "stateBeginString ps c =
     (if isSpace c then (scanSkipSpace, (StBeginString, ps))
      else if c = CHR 0x22 then (scanBeginLiteral, (StInString, ps))
      else scan_error ps)"

definition stateBeginStringOrEmpty :: "parse list \<Rightarrow> char \<Rightarrow> opcode \<times> scanner" where
  "stateBeginStringOrEmpty ps c =
     (if isSpace c then (scanSkipSpace, (StBeginStringOrEmpty, ps))
      else if c = CHR ''}'' then stateEndValue (parseObjectValue # tl ps) c
      else stateBeginString ps c)"

definition stateInString :: "parse list \<Rightarrow> char \<Rightarrow> opcode \<times> scanner" where
  "stateInString ps c =
     (if c = CHR 0x22 then (scanContinue, (StEndValue, ps))
      else if c = CHR 0x5C then (scanContinue, (StInStringEsc, ps))
      else if (of_char c :: nat) < 0x20 then scan_error ps
      else (scanContinue, (StInString, ps)))"

definition stateInStringEsc :: "parse list \<Rightarrow> char \<Rightarrow> opcode \<times> scanner" where
  "stateInStringEsc ps c =
     (if c \<in> set ''bfnrt/'' \<or> c = CHR 0x5C \<or> c = CHR 0x22 then (scanContinue, (StInString, ps))
      else if c = CHR ''u'' then (scanContinue, (StInStringEscU, ps))
      else scan_error ps)"

text \<open>A state that accepts the bytes \<open>P\<close> and goes to \<open>next\<close>, and fails on any other.\<close>

definition expect :: "(char \<Rightarrow> bool) \<Rightarrow> step \<Rightarrow> parse list \<Rightarrow> char \<Rightarrow> opcode \<times> scanner" where
  "expect P next ps c = (if P c then (scanContinue, (next, ps)) else scan_error ps)"

definition state0 :: "parse list \<Rightarrow> char \<Rightarrow> opcode \<times> scanner" where
  "state0 ps c =
     (if c = CHR ''.'' then (scanContinue, (StDot, ps))
      else if c = CHR ''e'' \<or> c = CHR ''E'' then (scanContinue, (StE, ps))
      else stateEndValue ps c)"

definition state1 :: "parse list \<Rightarrow> char \<Rightarrow> opcode \<times> scanner" where
  "state1 ps c = (if isDigit c then (scanContinue, (St1, ps)) else state0 ps c)"

definition stateNeg :: "parse list \<Rightarrow> char \<Rightarrow> opcode \<times> scanner" where
  "stateNeg ps c =
     (if c = CHR ''0'' then (scanContinue, (St0, ps))
      else if isDigit19 c then (scanContinue, (St1, ps))
      else scan_error ps)"

definition stateDot0 :: "parse list \<Rightarrow> char \<Rightarrow> opcode \<times> scanner" where
  "stateDot0 ps c =
     (if isDigit c then (scanContinue, (StDot0, ps))
      else if c = CHR ''e'' \<or> c = CHR ''E'' then (scanContinue, (StE, ps))
      else stateEndValue ps c)"

definition stateESign :: "parse list \<Rightarrow> char \<Rightarrow> opcode \<times> scanner" where
  "stateESign ps c = expect isDigit StE0 ps c"

definition stateE :: "parse list \<Rightarrow> char \<Rightarrow> opcode \<times> scanner" where
  "stateE ps c =
     (if c = CHR ''+'' \<or> c = CHR ''-'' then (scanContinue, (StESign, ps)) else stateESign ps c)"

definition stateE0 :: "parse list \<Rightarrow> char \<Rightarrow> opcode \<times> scanner" where
  "stateE0 ps c = (if isDigit c then (scanContinue, (StE0, ps)) else stateEndValue ps c)"

text \<open>\<open>s.step(s, c)\<close>: one byte through the step function in force.\<close>

fun scan_step :: "scanner \<Rightarrow> char \<Rightarrow> opcode \<times> scanner" where
  "scan_step (StBeginValueOrEmpty, ps) c = stateBeginValueOrEmpty ps c"
| "scan_step (StBeginValue, ps) c = stateBeginValue ps c"
| "scan_step (StBeginStringOrEmpty, ps) c = stateBeginStringOrEmpty ps c"
| "scan_step (StBeginString, ps) c = stateBeginString ps c"
| "scan_step (StEndValue, ps) c = stateEndValue ps c"
| "scan_step (StEndTop, ps) c = stateEndTop ps c"
| "scan_step (StInString, ps) c = stateInString ps c"
| "scan_step (StInStringEsc, ps) c = stateInStringEsc ps c"
| "scan_step (StInStringEscU, ps) c = expect isHex StInStringEscU1 ps c"
| "scan_step (StInStringEscU1, ps) c = expect isHex StInStringEscU12 ps c"
| "scan_step (StInStringEscU12, ps) c = expect isHex StInStringEscU123 ps c"
| "scan_step (StInStringEscU123, ps) c = expect isHex StInString ps c"
| "scan_step (StNeg, ps) c = stateNeg ps c"
| "scan_step (St1, ps) c = state1 ps c"
| "scan_step (St0, ps) c = state0 ps c"
| "scan_step (StDot, ps) c = expect isDigit StDot0 ps c"
| "scan_step (StDot0, ps) c = stateDot0 ps c"
| "scan_step (StE, ps) c = stateE ps c"
| "scan_step (StESign, ps) c = stateESign ps c"
| "scan_step (StE0, ps) c = stateE0 ps c"
| "scan_step (StT, ps) c = expect (\<lambda>c. c = CHR ''r'') StTr ps c"
| "scan_step (StTr, ps) c = expect (\<lambda>c. c = CHR ''u'') StTru ps c"
| "scan_step (StTru, ps) c = expect (\<lambda>c. c = CHR ''e'') StEndValue ps c"
| "scan_step (StF, ps) c = expect (\<lambda>c. c = CHR ''a'') StFa ps c"
| "scan_step (StFa, ps) c = expect (\<lambda>c. c = CHR ''l'') StFal ps c"
| "scan_step (StFal, ps) c = expect (\<lambda>c. c = CHR ''s'') StFals ps c"
| "scan_step (StFals, ps) c = expect (\<lambda>c. c = CHR ''e'') StEndValue ps c"
| "scan_step (StN, ps) c = expect (\<lambda>c. c = CHR ''u'') StNu ps c"
| "scan_step (StNu, ps) c = expect (\<lambda>c. c = CHR ''l'') StNul ps c"
| "scan_step (StNul, ps) c = expect (\<lambda>c. c = CHR ''l'') StEndValue ps c"
| "scan_step (StError, ps) c = (scanError, (StError, ps))"

text \<open>
  \<open>Decoder.readValue\<close> (stream.go) on a reader that holds the bytes given: the number
  of bytes of the first value, the syntax error with the count of bytes read, or the end
  of the input before a value is complete.
\<close>

datatype read = ReadValue nat | ReadError nat | ReadEnd

fun readValue_loop :: "scanner \<Rightarrow> string \<Rightarrow> nat \<Rightarrow> read" where
  "readValue_loop s [] n =
     (if fst (scan_step s (CHR '' '')) = scanEnd then ReadValue n else ReadEnd)"
| "readValue_loop s (c # cs) n =
     (case scan_step s c of
        (op, s') \<Rightarrow>
          if op = scanEnd then ReadValue n
          else if op = scanEndObject \<or> op = scanEndArray then
            (case stateEndValue (snd s') (CHR '' '') of
               (op', s'') \<Rightarrow> if op' = scanEnd then ReadValue (Suc n)
                             else readValue_loop s'' cs (Suc n))
          else if op = scanError then ReadError (Suc n)
          else readValue_loop s' cs (Suc n))"

definition readValue :: "string \<Rightarrow> json_error + nat" where
  "readValue buf =
     (case readValue_loop (StBeginValue, []) buf 0 of
        ReadValue n \<Rightarrow> Inr n
      | ReadError n \<Rightarrow> Inl (SyntaxError n)
      | ReadEnd \<Rightarrow> if filter (\<lambda>c. \<not> isSpace c) buf \<noteq> [] then Inl ErrUnexpectedEOF else Inl EOF)"


subsection \<open>Walking a scanned value (decode.go)\<close>

text \<open>
  The extent of the value that starts a text: what \<open>decodeState.skip\<close> and
  \<open>rescanLiteral\<close> step over. The decoder works on bytes the scanner has accepted, so
  the extent is the one the scanner finds.
\<close>

definition valueLen :: "string \<Rightarrow> nat" where
  "valueLen s = (case readValue_loop (StBeginValue, []) s 0 of ReadValue n \<Rightarrow> n | _ \<Rightarrow> 0)"

definition skipSpace :: "string \<Rightarrow> string" where
  "skipSpace s = dropWhile isSpace s"

text \<open>
  The members of an object, from the text after its opening brace: the literal of each
  key and the bytes of each value, in the order of the text (the loop of
  \<open>decodeState.object\<close>).
\<close>

function members :: "string \<Rightarrow> (string \<times> string) list" where
  "members s =
     (case dropWhile isSpace s of
        [] \<Rightarrow> []
      | c # cs \<Rightarrow>
          if c \<noteq> CHR 0x22 then []
          else
            (let key = take (valueLen (c # cs)) (c # cs);
                 s2 = dropWhile isSpace (drop (valueLen (c # cs)) (c # cs));
                 s3 = dropWhile isSpace (drop 1 s2);
                 val = take (valueLen s3) s3
             in (key, val) #
                (case dropWhile isSpace (drop (valueLen s3) s3) of
                   [] \<Rightarrow> []
                 | c' # s5 \<Rightarrow> if c' = CHR '','' then members s5 else [])))"
  by pat_completeness auto
termination
proof (relation "measure length", goal_cases)
  case 1
  show ?case by simp
next
  case (2 s c cs key s2 s3 val c' s5)
  have a: "length (dropWhile isSpace t) \<le> length t" for t :: string
    by (rule length_dropWhile_le)
  have "length (c' # s5) \<le> length s3"
    using a [of "drop (valueLen s3) s3"] 2 by simp
  also have "\<dots> \<le> length s2"
    using a [of "drop 1 s2"] 2 by simp
  also have "\<dots> \<le> length (c # cs)"
    using a [of "drop (valueLen (c # cs)) (c # cs)"] 2 by simp
  also have "\<dots> \<le> length s"
    using a [of s] 2 by simp
  finally show ?case by simp
qed


subsection \<open>Strings: UTF-8 and unquoting\<close>

definition inRange :: "char \<Rightarrow> nat \<Rightarrow> nat \<Rightarrow> bool" where
  "inRange c lo hi = (lo \<le> of_char c \<and> of_char c \<le> hi)"

text \<open>
  After the first byte of an encoding: a byte between \<open>lo\<close> and \<open>hi\<close>, then \<open>n\<close>
  continuation bytes.
\<close>

definition accept :: "nat \<Rightarrow> nat \<Rightarrow> nat \<Rightarrow> string \<Rightarrow> bool" where
  "accept lo hi n cs =
     (case cs of
        [] \<Rightarrow> False
      | c1 # r \<Rightarrow> inRange c1 lo hi \<and> n \<le> length r \<and> list_all (\<lambda>c. inRange c 0x80 0xBF) (take n r))"

text \<open>
  The size \<open>utf8.DecodeRune\<close> returns for the encoding that starts the text, and 0 where
  it returns \<open>RuneError\<close> with size 1 (no valid encoding starts the text).
\<close>

definition utf8Len :: "string \<Rightarrow> nat" where
  "utf8Len s =
     (case s of
        [] \<Rightarrow> 0
      | c # cs \<Rightarrow>
          (let b = of_char c :: nat in
           if b < 0x80 then 1
           else if 0xC2 \<le> b \<and> b \<le> 0xDF then (if accept 0x80 0xBF 0 cs then 2 else 0)
           else if b = 0xE0 then (if accept 0xA0 0xBF 1 cs then 3 else 0)
           else if b = 0xED then (if accept 0x80 0x9F 1 cs then 3 else 0)
           else if 0xE1 \<le> b \<and> b \<le> 0xEF then (if accept 0x80 0xBF 1 cs then 3 else 0)
           else if b = 0xF0 then (if accept 0x90 0xBF 2 cs then 4 else 0)
           else if 0xF1 \<le> b \<and> b \<le> 0xF3 then (if accept 0x80 0xBF 2 cs then 4 else 0)
           else if b = 0xF4 then (if accept 0x80 0x8F 2 cs then 4 else 0)
           else 0))"

text \<open>\<open>utf8.EncodeRune\<close>: a surrogate or a value beyond U+10FFFF is written as U+FFFD.\<close>

definition EncodeRune :: "nat \<Rightarrow> string" where
  "EncodeRune r =
     (if r < 0x80 then [char_of r]
      else if r < 0x800 then [char_of (0xC0 + r div 64), char_of (0x80 + r mod 64)]
      else if (0xD800 \<le> r \<and> r \<le> 0xDFFF) \<or> 0x10FFFF < r then [CHR 0xEF, CHR 0xBF, CHR 0xBD]
      else if r < 0x10000 then
        [char_of (0xE0 + r div 4096), char_of (0x80 + (r div 64) mod 64), char_of (0x80 + r mod 64)]
      else
        [char_of (0xF0 + r div 262144), char_of (0x80 + (r div 4096) mod 64),
         char_of (0x80 + (r div 64) mod 64), char_of (0x80 + r mod 64)])"

definition hexVal :: "char \<Rightarrow> nat" where
  "hexVal c =
     (if isDigit c then of_char c - 48
      else if c \<in> set ''abcdef'' then of_char c - 87
      else of_char c - 55)"

text \<open>\<open>getu4\<close>: the value of the escape \<open>\uXXXX\<close> that starts the text, if one does.\<close>

definition getu4 :: "string \<Rightarrow> nat option" where
  "getu4 s =
     (case s of
        b # u # h1 # h2 # h3 # h4 # _ \<Rightarrow>
          if b = CHR 0x5C \<and> u = CHR ''u'' \<and> isHex h1 \<and> isHex h2 \<and> isHex h3 \<and> isHex h4
          then Some (((hexVal h1 * 16 + hexVal h2) * 16 + hexVal h3) * 16 + hexVal h4)
          else None
      | _ \<Rightarrow> None)"

definition unescape :: "char \<Rightarrow> char" where
  "unescape e =
     (if e = CHR ''b'' then CHR 0x08
      else if e = CHR ''f'' then CHR 0x0C
      else if e = CHR ''n'' then CHR 0x0A
      else if e = CHR ''r'' then CHR 0x0D
      else if e = CHR ''t'' then CHR 0x09
      else e)"

text \<open>
  \<open>unquoteBytes\<close> on the bytes between the quotes of a literal the scanner has accepted:
  escapes are replaced, a pair of surrogate escapes is one rune, a lone surrogate and
  every byte that starts no valid UTF-8 encoding become U+FFFD.
\<close>

fun unquoteBody :: "string \<Rightarrow> string" where
  "unquoteBody [] = []"
| "unquoteBody (c # cs) =
     (if c = CHR 0x5C then
        (case cs of
           [] \<Rightarrow> []
         | e # es \<Rightarrow>
             if e = CHR ''u'' then
               (case getu4 (c # cs) of
                  None \<Rightarrow> []
                | Some rr \<Rightarrow>
                    if 0xD800 \<le> rr \<and> rr < 0xE000 then
                      (case getu4 (drop 4 es) of
                         None \<Rightarrow> EncodeRune 0xFFFD @ unquoteBody (drop 4 es)
                       | Some rr1 \<Rightarrow>
                           if rr < 0xDC00 \<and> 0xDC00 \<le> rr1 \<and> rr1 < 0xE000
                           then EncodeRune ((rr - 0xD800) * 1024 + (rr1 - 0xDC00) + 0x10000)
                                  @ unquoteBody (drop 10 es)
                           else EncodeRune 0xFFFD @ unquoteBody (drop 4 es))
                    else EncodeRune rr @ unquoteBody (drop 4 es))
             else unescape e # unquoteBody es)
      else if (of_char c :: nat) < 0x80 then c # unquoteBody cs
      else
        (case utf8Len (c # cs) of
           0 \<Rightarrow> EncodeRune 0xFFFD @ unquoteBody cs
         | Suc n \<Rightarrow> c # take n cs @ unquoteBody (drop n cs)))"

definition unquote :: "string \<Rightarrow> string" where
  "unquote item = unquoteBody (butlast (tl item))"

subsection \<open>Finding the field of a key\<close>

definition toUpper :: "char \<Rightarrow> char" where
  "toUpper c = (if c \<in> set ''abcdefghijklmnopqrstuvwxyz'' then char_of (of_char c - (32::nat)) else c)"

text \<open>
  \<open>foldName\<close>: ASCII letters in upper case; the Kelvin sign U+212A and the long s U+017F
  are the two runes beyond ASCII whose case folding is an ASCII letter. Other bytes are
  kept, which decides the equality with the folded name of a field, all of whose bytes
  are ASCII.
\<close>

fun foldName :: "string \<Rightarrow> string" where
  "foldName [] = []"
| "foldName (c # cs) =
     (if c = CHR 0xE2 \<and> take 2 cs = [CHR 0x84, CHR 0xAA] then CHR ''K'' # foldName (drop 2 cs)
      else if c = CHR 0xC5 \<and> take 1 cs = [CHR 0xBF] then CHR ''S'' # foldName (drop 1 cs)
      else toUpper c # foldName cs)"

text \<open>
  The field a key names, by its index in the list of the field names: the field of that
  very name, or else the first field with the same folded name.
\<close>

fun findFold :: "string list \<Rightarrow> string \<Rightarrow> nat option" where
  "findFold [] key = None"
| "findFold (n # ns) key =
     (if foldName n = foldName key then Some 0 else map_option Suc (findFold ns key))"

fun findExact :: "string list \<Rightarrow> string \<Rightarrow> nat option" where
  "findExact [] key = None"
| "findExact (n # ns) key = (if n = key then Some 0 else map_option Suc (findExact ns key))"

definition findField :: "string list \<Rightarrow> string \<Rightarrow> nat option" where
  "findField names key =
     (case findExact names key of Some i \<Rightarrow> Some i | None \<Rightarrow> findFold names key)"

subsection \<open>Storing values\<close>

text \<open>
  What decoding a value yields: the value stored into, the first error saved
  (\<open>saveError\<close>, after which decoding goes on), and the error that ended the decoding.
\<close>

type_synonym 'a decoding = "'a \<times> json_error option \<times> json_error option"

definition saveError :: "json_error option \<Rightarrow> json_error option \<Rightarrow> json_error option" where
  "saveError saved err = (case saved of None \<Rightarrow> err | Some e \<Rightarrow> Some e)"

text \<open>The name the decoder gives the kind of a value, from its first byte.\<close>

definition valueName :: "char \<Rightarrow> string" where
  "valueName c =
     (if c = CHR ''{'' then ''object''
      else if c = CHR ''['' then ''array''
      else if c = CHR 0x22 then ''string''
      else if c = CHR ''t'' \<or> c = CHR ''f'' then ''bool''
      else ''number'')"

text \<open>A value into a field of type string: a string is stored, null is ignored.\<close>

definition decodeString :: "string \<Rightarrow> string \<Rightarrow> string decoding" where
  "decodeString item v =
     (case item of
        [] \<Rightarrow> (v, None, None)
      | c # cs \<Rightarrow>
          if c = CHR 0x22 then (unquote item, None, None)
          else if c = CHR ''n'' then (v, None, None)
          else (v, Some (UnmarshalTypeError (valueName c) ''string''), None))"

text \<open>
  The loop of \<open>decodeState.object\<close> over the members: the value of a key that names a
  field is decoded into the field, the value of any other key is skipped.
\<close>

fun decodeMembers ::
  "(string \<Rightarrow> (string \<Rightarrow> 'a \<Rightarrow> 'a decoding) option) \<Rightarrow> (string \<times> string) list \<Rightarrow> 'a
     \<Rightarrow> json_error option \<Rightarrow> 'a decoding" where
  "decodeMembers field [] v saved = (v, saved, None)"
| "decodeMembers field ((key, item) # ms) v saved =
     (case field (unquote key) of
        None \<Rightarrow> decodeMembers field ms v saved
      | Some dec \<Rightarrow>
          (case dec item v of
             (v', saved', Some err) \<Rightarrow> (v', saveError saved saved', Some err)
           | (v', saved', None) \<Rightarrow> decodeMembers field ms v' (saveError saved saved')))"

text \<open>A value into a struct: an object is walked, null is ignored.\<close>

definition decodeStruct ::
  "(string \<Rightarrow> (string \<Rightarrow> 'a \<Rightarrow> 'a decoding) option) \<Rightarrow> string \<Rightarrow> 'a \<Rightarrow> 'a decoding" where
  "decodeStruct field item v =
     (case item of
        [] \<Rightarrow> (v, None, None)
      | c # cs \<Rightarrow>
          if c = CHR ''{'' then decodeMembers field (members cs) v None
          else if c = CHR ''n'' then (v, None, None)
          else (v, Some (UnmarshalTypeError (valueName c) ''struct''), None))"

text \<open>Decoding into a field: the field is read, decoded into, and written back.\<close>

definition onField ::
  "('a \<Rightarrow> 'f) \<Rightarrow> (('f \<Rightarrow> 'f) \<Rightarrow> 'a \<Rightarrow> 'a) \<Rightarrow> (string \<Rightarrow> 'f \<Rightarrow> 'f decoding)
     \<Rightarrow> string \<Rightarrow> 'a \<Rightarrow> 'a decoding" where
  "onField get upd dec item v =
     (case dec item (get v) of (f, saved, err) \<Rightarrow> (upd (\<lambda>_. f) v, saved, err))"

text \<open>
  \<open>Decoder.Decode\<close> on a fresh decoder: the first value of the input is read, then
  stored; an error that ended the decoding is returned before a saved one.
\<close>

definition Decode :: "(string \<Rightarrow> 'a \<Rightarrow> 'a decoding) \<Rightarrow> string \<Rightarrow> 'a \<Rightarrow> 'a \<times> json_error option" where
  "Decode dec buf v =
     (case readValue buf of
        Inl e \<Rightarrow> (v, Some e)
      | Inr n \<Rightarrow>
          (case dec (skipSpace (take n buf)) v of
             (v', saved, Some err) \<Rightarrow> (v', Some err)
           | (v', saved, None) \<Rightarrow> (v', saved)))"

subsection \<open>The values yahoo.go decodes into\<close>

text \<open>
  The fields of the anonymous struct of \<open>userFromReader\<close>, under the names of their
  tags.
\<close>

definition imageField :: "string \<Rightarrow> (string \<Rightarrow> Image \<Rightarrow> Image decoding) option" where
  "imageField key =
     (if findField [''imageURL''] key = Some 0
      then Some (onField ImageURL ImageURL_update decodeString)
      else None)"

definition profileField :: "string \<Rightarrow> (string \<Rightarrow> Profile \<Rightarrow> Profile decoding) option" where
  "profileField key =
     (let i = findField [''nickname'', ''location'', ''guid'', ''image''] key
      in if i = Some 0 then Some (onField Profile_NickName Profile_NickName_update decodeString)
         else if i = Some 1 then Some (onField Profile_Location Profile_Location_update decodeString)
         else if i = Some 2 then Some (onField Profile_ID Profile_ID_update decodeString)
         else if i = Some 3
           then Some (onField Profile_Image Profile_Image_update (decodeStruct imageField))
         else None)"

definition docField :: "string \<Rightarrow> (string \<Rightarrow> ProfileDoc \<Rightarrow> ProfileDoc decoding) option" where
  "docField key =
     (if findField [''profile''] key = Some 0
      then Some (onField Profile Profile_update (decodeStruct profileField))
      else None)"

text \<open>\<open>json.NewDecoder(r).Decode(&u)\<close> of \<open>userFromReader\<close>.\<close>

definition decodeProfileDoc :: "string \<Rightarrow> ProfileDoc \<Rightarrow> ProfileDoc \<times> json_error option" where
  "decodeProfileDoc r u = Decode (decodeStruct docField) r u"

text \<open>
  A value into a field of type \<open>time.Time\<close>: the bytes of the value, of whatever kind,
  go to \<open>Time.UnmarshalJSON\<close>, and its error ends the decoding. \<open>unmarshalTime\<close> is
  that method: from the bytes and the time before, the time after and the error.
\<close>

definition decodeTime ::
  "(string \<Rightarrow> Time \<Rightarrow> Time \<times> string option) \<Rightarrow> string \<Rightarrow> Time \<Rightarrow> Time decoding" where
  "decodeTime unmarshalTime item t =
     (case unmarshalTime item t of
        (t', None) \<Rightarrow> (t', None, None)
      | (t', Some e) \<Rightarrow> (t', None, Some (TimeError e)))"

text \<open>
  Modelled from the spec: the Session type has no field tags (session.go is not among the
  source files), so that its JSON members are named as its fields are: the authorization
  URL, the access token, the refresh token and the expiry of section 6 of the
  specification.
\<close>

definition sessionField ::
  "(string \<Rightarrow> Time \<Rightarrow> Time \<times> string option) \<Rightarrow> string
     \<Rightarrow> (string \<Rightarrow> Session \<Rightarrow> Session decoding) option" where
  "sessionField unmarshalTime key =
     (let i = findField [''AuthURL'', ''AccessToken'', ''RefreshToken'', ''ExpiresAt''] key
      in if i = Some 0 then Some (onField AuthURL AuthURL_update decodeString)
         else if i = Some 1 then Some (onField AccessToken AccessToken_update decodeString)
         else if i = Some 2 then Some (onField RefreshToken RefreshToken_update decodeString)
         else if i = Some 3
           then Some (onField ExpiresAt ExpiresAt_update (decodeTime unmarshalTime))
         else None)"

text \<open>\<open>json.NewDecoder(strings.NewReader(data)).Decode(s)\<close> of \<open>UnmarshalSession\<close>.\<close>

definition decodeSession ::
  "(string \<Rightarrow> Time \<Rightarrow> Time \<times> string option) \<Rightarrow> string \<Rightarrow> Session \<Rightarrow> Session \<times> json_error option" where
  "decodeSession unmarshalTime data s = Decode (decodeStruct (sessionField unmarshalTime)) data s"

section \<open>Libraries for the concrete cases\<close>

text \<open>
  \<open>http.NewRequest\<close> where it accepts the method and the URL, as it does those of
  \<open>FetchUser\<close>: the request, with no header yet.
\<close>

definition acceptingNewRequest :: "string \<Rightarrow> string \<Rightarrow> Request option \<times> string option" where
  "acceptingNewRequest method url = (Some \<lparr>Method = method, URL = url, Header = []\<rparr>, None)"

text \<open>
  A client whose server answers with the status and the body given, when the request
  presents the token given as bearer, and with status 401 and an error document
  otherwise; and a client whose connection is refused.
\<close>

definition answeringClient :: "string \<Rightarrow> nat \<Rightarrow> string \<Rightarrow> Request \<Rightarrow> Response option \<times> string option" where
  "answeringClient token status body req =
     (if map_of (Header req) ''Authorization'' = Some (''Bearer '' @ token)
      then (Some \<lparr>StatusCode = status, Body = body\<rparr>, None)
      else (Some \<lparr>StatusCode = 401, Body = ''{}''\<rparr>, None))"

definition refusedClient :: "Request \<Rightarrow> Response option \<times> string option" where
  "refusedClient req = (None, Some ''connection refused'')"

section \<open>Properties\<close>

subsection \<open>Construction\<close>

lemma foldl_append_Scopes:
  "foldl (\<lambda>c scope. c\<lparr>Scopes := Scopes c @ [scope]\<rparr>) c scopes = c\<lparr>Scopes := Scopes c @ scopes\<rparr>"
  by (induction scopes arbitrary: c) simp_all

lemma newConfig_eq:
  "newConfig clientKey secret callbackURL scopes =
     \<lparr>ClientID = clientKey, ClientSecret = secret, RedirectURL = callbackURL,
      Endpoint = \<lparr>Endpoint_AuthURL = authURL, Endpoint_TokenURL = tokenURL\<rparr>,
      Scopes = scopes\<rparr>"
  by (cases scopes) (simp_all add: newConfig_def foldl_append_Scopes)

lemma config_New:
  "config (New clientKey secret callbackURL scopes) =
     Some \<lparr>ClientID = clientKey, ClientSecret = secret, RedirectURL = callbackURL,
           Endpoint = \<lparr>Endpoint_AuthURL = authURL, Endpoint_TokenURL = tokenURL\<rparr>,
           Scopes = scopes\<rparr>"
  by (simp add: New_def newConfig_eq)

subsection \<open>RefreshToken\<close>

text \<open>
  C7. RefreshToken hands the token source a token that carries the refresh token and
  nothing else, and returns what the token source returns: its error (as the refresh
  error), with no token beside an error, and its token when there is no error.
\<close>

theorem RefreshToken_delegates:
  "let res = tokenSourceToken (config p)
               \<lparr>Token_AccessToken = [], TokenType = [], Token_RefreshToken = refreshToken,
                Expiry = zeroTime\<rparr>
   in snd (RefreshToken_op tokenSourceToken p refreshToken) = map_option RefreshFailed (snd res)
    \<and> (snd res = None \<longrightarrow> fst (RefreshToken_op tokenSourceToken p refreshToken) = fst res)
    \<and> (snd res \<noteq> None \<longrightarrow> fst (RefreshToken_op tokenSourceToken p refreshToken) = None)"
  by (auto simp: RefreshToken_op_def Let_def split: prod.splits option.splits)

theorem RefreshToken_delegates_witness:
  "RefreshToken_op (\<lambda>c t. if Token_RefreshToken t = ''r1''
                           then (Some (t\<lparr>Token_AccessToken := ''a2''\<rparr>), None)
                           else (None, Some ''invalid_grant''))
     (New ''key'' ''secret'' ''http://cb'' []) ''r1''
     = (Some \<lparr>Token_AccessToken = ''a2'', TokenType = [], Token_RefreshToken = ''r1'',
              Expiry = zeroTime\<rparr>, None)
   \<and> RefreshToken_op (\<lambda>c t. if Token_RefreshToken t = ''r1''
                           then (Some (t\<lparr>Token_AccessToken := ''a2''\<rparr>), None)
                           else (None, Some ''invalid_grant''))
     (New ''key'' ''secret'' ''http://cb'' []) ''r0''
     = (None, Some (RefreshFailed ''invalid_grant''))"
  using
    RefreshToken_delegates [of "\<lambda>c t. if Token_RefreshToken t = ''r1''
                           then (Some (t\<lparr>Token_AccessToken := ''a2''\<rparr>), None)
                           else (None, Some ''invalid_grant'')"
       "New ''key'' ''secret'' ''http://cb'' []" "''r1''"]
    RefreshToken_delegates [of "\<lambda>c t. if Token_RefreshToken t = ''r1''
                           then (Some (t\<lparr>Token_AccessToken := ''a2''\<rparr>), None)
                           else (None, Some ''invalid_grant'')"
       "New ''key'' ''secret'' ''http://cb'' []" "''r0''"]
  by (simp add: Let_def prod_eq_iff)

subsection \<open>BeginAuth\<close>

text \<open>
  C10. BeginAuth never fails: on a provider built by New it returns, and the error beside
  the Session is nil; on no provider at all does it return an error.
\<close>

theorem BeginAuth_never_fails:
  "(\<exists>sess. BeginAuth authCodeURL (New clientKey secret callbackURL scopes) state
             = Returned (sess, None))
   \<and> (\<forall>p sess err. BeginAuth authCodeURL p state \<noteq> Returned (sess, Some err))"
  by (auto simp: BeginAuth_def config_New split: option.splits)

subsection \<open>FetchUser\<close>

text \<open>
  C9. FetchUser begins with the type assertion of its argument to a pointer to this
  provider's Session. On a session of another concrete type, and on the nil interface,
  it panics, whatever the libraries do, and so returns neither a user nor an error.
\<close>

theorem FetchUser_foreign_session_panics:
  "FetchUser newRequest do decode p (ForeignSession t) = Panic InterfaceConversion
   \<and> FetchUser newRequest do decode p NilSession = Panic InterfaceConversion
   \<and> (\<forall>r. FetchUser newRequest do decode p (ForeignSession t) \<noteq> Returned r)"
  by (simp add: FetchUser_def)


lemma FetchUser_response:
  assumes "newRequest ''GET'' endpointProfile = (Some req0, None)"
    and "do (req0\<lparr>Header := Header_Set ''Authorization'' (''Bearer '' @ AccessToken s) (Header req0)\<rparr>)
           = (Some resp, None)"
  shows "FetchUser newRequest do decode p (YahooSession (Some s))
           = Returned (userFromReader decode (Body resp) (initialUser p s))"
  using assms by (simp add: FetchUser_def Let_def)

lemma decode_jdoe:
  \<open>decodeProfileDoc
     ''{"profile":{"nickname":"jdoe","location":"US","guid":"123","image":{"imageURL":"http://x/img.png"}}}''
     zeroProfileDoc
   = (\<lparr>Profile = \<lparr>Profile_NickName = ''jdoe'', Profile_Location = ''US'', Profile_ID = ''123'',
        Profile_Image = \<lparr>ImageURL = ''http://x/img.png''\<rparr>\<rparr>\<rparr>, None)\<close>
  by code_simp

text \<open>
  C2. When the client delivers a response whose body is the profile document of jdoe,
  FetchUser returns no error and a user with the name and the nickname jdoe, the
  identifier 123, the location US, the avatar address of the document, and no email; the
  token fields are those of the session.
\<close>

theorem FetchUser_profile:
  assumes "newRequest ''GET'' endpointProfile = (Some req0, None)"
    and "do (req0\<lparr>Header := Header_Set ''Authorization'' (''Bearer '' @ AccessToken s) (Header req0)\<rparr>)
           = (Some resp, None)"
    and \<open>Body resp = ''{"profile":{"nickname":"jdoe","location":"US","guid":"123","image":{"imageURL":"http://x/img.png"}}}''\<close>
  shows "FetchUser newRequest do decodeProfileDoc p (YahooSession (Some s))
           = Returned (\<lparr>User_Provider = ''yahoo'', Email = [], Name = ''jdoe'', NickName = ''jdoe'',
                UserID = ''123'', AvatarURL = ''http://x/img.png'', Location = ''US'',
                User_AccessToken = AccessToken s, User_RefreshToken = RefreshToken s,
                User_ExpiresAt = ExpiresAt s\<rparr>, None)"
proof -
  have "FetchUser newRequest do decodeProfileDoc p (YahooSession (Some s))
          = Returned (userFromReader decodeProfileDoc (Body resp) (initialUser p s))"
    using assms(1,2) by (rule FetchUser_response)
  then show ?thesis
    by (simp add: userFromReader_def assms(3) decode_jdoe initialUser_def Provider_Name_def)
qed

theorem FetchUser_profile_witness:
  \<open>FetchUser acceptingNewRequest
     (answeringClient ''tok'' 200
        ''{"profile":{"nickname":"jdoe","location":"US","guid":"123","image":{"imageURL":"http://x/img.png"}}}'')
     decodeProfileDoc (New ''key'' ''secret'' ''http://cb'' [])
     (YahooSession (Some \<lparr>AuthURL = [], AccessToken = ''tok'', RefreshToken = ''r'', ExpiresAt = zeroTime\<rparr>))
   = Returned (\<lparr>User_Provider = ''yahoo'', Email = [], Name = ''jdoe'', NickName = ''jdoe'',
                UserID = ''123'', AvatarURL = ''http://x/img.png'', Location = ''US'',
                User_AccessToken = ''tok'', User_RefreshToken = ''r'',
                User_ExpiresAt = zeroTime\<rparr>, None)\<close>
  using FetchUser_profile [of acceptingNewRequest "\<lparr>Method = ''GET'', URL = endpointProfile, Header = []\<rparr>"
      \<open>answeringClient ''tok'' 200
        ''{"profile":{"nickname":"jdoe","location":"US","guid":"123","image":{"imageURL":"http://x/img.png"}}}''\<close>
      "\<lparr>AuthURL = [], AccessToken = ''tok'', RefreshToken = ''r'', ExpiresAt = zeroTime\<rparr>"
      \<open>\<lparr>StatusCode = 200, Body = ''{"profile":{"nickname":"jdoe","location":"US","guid":"123","image":{"imageURL":"http://x/img.png"}}}''\<rparr>\<close>
      "New ''key'' ''secret'' ''http://cb'' []"]
  by (simp add: acceptingNewRequest_def answeringClient_def Header_Set_def)

end
